theory Spec2Isabelle
  imports
    Complex_Main
    "HOL-Library.Multiset"
    "HOL-Library.List_Lexorder"
    "HOL-Library.Product_Lexorder"
begin

section \<open>Election Visualization Dashboard: the data pipeline of main.py\<close>

text \<open>
  The dashboard reads a results table and a boundary table, cleans the results, derives
  a handful of aggregate tables once, and then serves six render callbacks that read
  those tables. This theory embeds the dataframe transforms of \<^verbatim>\<open>main.py\<close> as list
  functions and proves the properties the specification states about them.

  A dataframe is a list of rows in row order. A cell of a text column is a
  \<open>str option\<close> (\<open>None\<close> is the missing value), a cell of a numeric column is an \<open>f64\<close>.
\<close>

subsection \<open>Cells\<close>

text \<open>
  A Python \<^verbatim>\<open>str\<close> is a sequence of Unicode code points; comparison is lexicographic on
  code points, which is the order of \<open>nat list\<close>.
\<close>

type_synonym str = "nat list"

definition py_str :: "string \<Rightarrow> str" where
  "py_str s = map of_char s"

text \<open>
  A numeric cell is a float64 as \<^verbatim>\<open>pd.to_numeric(..., errors="coerce")\<close> leaves it: \<open>NaN\<close>
  (the missing value, also what an unparseable text is coerced to), an infinity, or a
  finite value. Finite values are exact rationals: rounding and the sign of zero are
  outside this model.
\<close>

datatype f64 = NaN | NInf | Fin rat | PInf

definition isna :: "f64 \<Rightarrow> bool" where
  "isna x = (x = NaN)"

text \<open>Comparison as the floats compare: every comparison with \<open>NaN\<close> is false.\<close>

fun num_eq :: "f64 \<Rightarrow> f64 \<Rightarrow> bool" where
  "num_eq NaN _ = False"
| "num_eq _ NaN = False"
| "num_eq a b = (a = b)"


text \<open>
  Division and multiplication of columns never raise: a zero divisor gives an infinity,
  or \<open>NaN\<close> for \<open>0 / 0\<close>.
\<close>

fun num_div :: "f64 \<Rightarrow> f64 \<Rightarrow> f64" where
  "num_div NaN _ = NaN"
| "num_div _ NaN = NaN"
| "num_div (Fin a) (Fin b) =
     (if b = 0 then (if a = 0 then NaN else if 0 < a then PInf else NInf)
      else Fin (a / b))"
| "num_div (Fin a) PInf = Fin 0"
| "num_div (Fin a) NInf = Fin 0"
| "num_div PInf (Fin b) = (if 0 \<le> b then PInf else NInf)"
| "num_div NInf (Fin b) = (if 0 \<le> b then NInf else PInf)"
| "num_div PInf PInf = NaN"
| "num_div PInf NInf = NaN"
| "num_div NInf PInf = NaN"
| "num_div NInf NInf = NaN"

fun num_mul :: "f64 \<Rightarrow> f64 \<Rightarrow> f64" where
  "num_mul NaN _ = NaN"
| "num_mul _ NaN = NaN"
| "num_mul (Fin a) (Fin b) = Fin (a * b)"
| "num_mul (Fin a) PInf = (if a = 0 then NaN else if 0 < a then PInf else NInf)"
| "num_mul (Fin a) NInf = (if a = 0 then NaN else if 0 < a then NInf else PInf)"
| "num_mul PInf (Fin b) = (if b = 0 then NaN else if 0 < b then PInf else NInf)"
| "num_mul NInf (Fin b) = (if b = 0 then NaN else if 0 < b then NInf else PInf)"
| "num_mul PInf PInf = PInf"
| "num_mul PInf NInf = NInf"
| "num_mul NInf PInf = NInf"
| "num_mul NInf NInf = PInf"

subsection \<open>Text normalisation: \<^verbatim>\<open>.str.strip().str.title()\<close>\<close>

text \<open>
  On an object column pandas applies Python's \<^verbatim>\<open>str.strip\<close> and \<^verbatim>\<open>str.title\<close> to every
  text cell and leaves a missing cell missing.

  \<^verbatim>\<open>str.strip()\<close> removes the leading and the trailing run of whitespace code points.
\<close>

definition is_space :: "nat \<Rightarrow> bool" where
  "is_space c =
     ((9 \<le> c \<and> c \<le> 13) \<or> (28 \<le> c \<and> c \<le> 32) \<or> c = 133 \<or> c = 160 \<or> c = 5760
      \<or> (8192 \<le> c \<and> c \<le> 8202) \<or> c = 8232 \<or> c = 8233 \<or> c = 8239 \<or> c = 8287
      \<or> c = 12288)"

definition strip :: "str \<Rightarrow> str" where
  "strip s = rev (dropWhile is_space (rev (dropWhile is_space s)))"


definition is_upper_ascii :: "nat \<Rightarrow> bool" where
  "is_upper_ascii c = (65 \<le> c \<and> c \<le> 90)"

definition is_lower_ascii :: "nat \<Rightarrow> bool" where
  "is_lower_ascii c = (97 \<le> c \<and> c \<le> 122)"

definition is_cased :: "nat \<Rightarrow> bool" where
  "is_cased c = (is_upper_ascii c \<or> is_lower_ascii c \<or> c = 304)"

definition to_lower_full :: "nat \<Rightarrow> str" where
  "to_lower_full c =
     (if is_upper_ascii c then [c + 32] else if c = 304 then [105, 775] else [c])"

definition to_title_full :: "nat \<Rightarrow> str" where
  "to_title_full c = (if is_lower_ascii c then [c - 32] else [c])"

fun do_title :: "bool \<Rightarrow> str \<Rightarrow> str" where
  "do_title previous_is_cased [] = []"
| "do_title previous_is_cased (c # cs) =
     (if previous_is_cased then to_lower_full c else to_title_full c)
       @ do_title (is_cased c) cs"

definition title :: "str \<Rightarrow> str" where
  "title s = do_title False s"

text \<open>The join-key normalisation of both tables, on one text value and on a cell.\<close>

definition normalize_name :: "str \<Rightarrow> str" where
  "normalize_name s = title (strip s)"

definition normalize_cell :: "str option \<Rightarrow> str option" where
  "normalize_cell c = map_option normalize_name c"

subsection \<open>The results table and its cleaning\<close>

text \<open>
  The columns of the results table that the pipeline reads. The input of the model is
  the table as it stands once the numeric columns have been coerced with
  \<^verbatim>\<open>pd.to_numeric\<close>: \<open>Turnout\<close> is then still the value of the raw field.
\<close>

record row =
  state :: "str option"
  year :: f64
  party :: "str option"
  Pc_name :: "str option"
  candidate_name :: "str option"
  Turnout :: f64
  votes :: f64
  electors :: f64
  margin_pct :: f64

text \<open>
  The party column: \<^verbatim>\<open>.astype(str)\<close> turns a missing cell into the text \<^verbatim>\<open>nan\<close>, then the
  text is stripped and title-cased, and a full party name is replaced by its abbreviation.
\<close>

definition astype_str :: "str option \<Rightarrow> str" where
  "astype_str c = (case c of None \<Rightarrow> py_str ''nan'' | Some s \<Rightarrow> s)"

definition party_map :: "(str \<times> str) list" where
  "party_map =
     [(py_str ''Bharatiya Janata Party'', py_str ''BJP''),
      (py_str ''Indian National Congress'', py_str ''INC''),
      (py_str ''Bahujan Samaj Party'', py_str ''BSP''),
      (py_str ''Aam Aadmi Party'', py_str ''AAP''),
      (py_str ''Communist Party Of India (Marxist)'', py_str ''CPM''),
      (py_str ''All India Trinamool Congress'', py_str ''TMC''),
      (py_str ''Janata Dal (United)'', py_str ''JDU''),
      (py_str ''Samajwadi Party'', py_str ''SP'')]"

definition replace_party :: "str \<Rightarrow> str" where
  "replace_party s = (case map_of party_map s of None \<Rightarrow> s | Some t \<Rightarrow> t)"

definition clean_party :: "str option \<Rightarrow> str option" where
  "clean_party c = Some (replace_party (title (strip (astype_str c))))"

text \<open>
  \<^verbatim>\<open>dropna(subset=["Turnout", "votes", "electors"])\<close> keeps the rows where none of the three
  cells is missing; the next line overwrites \<open>Turnout\<close>.
\<close>

definition survives :: "row \<Rightarrow> bool" where
  "survives r = (\<not> isna (Turnout r) \<and> \<not> isna (votes r) \<and> \<not> isna (electors r))"

definition recompute_turnout :: "row \<Rightarrow> row" where
  "recompute_turnout r = r\<lparr>Turnout := num_mul (num_div (votes r) (electors r)) (Fin 100)\<rparr>"

definition df_clean :: "row list \<Rightarrow> row list" where
  "df_clean raw =
     map recompute_turnout
       (filter survives (map (\<lambda>r. r\<lparr>party := clean_party (party r)\<rparr>) raw))"

text \<open>The results table the views read: the constituency name normalised (line 65).\<close>

definition df_hist :: "row list \<Rightarrow> row list" where
  "df_hist raw = map (\<lambda>r. r\<lparr>Pc_name := normalize_cell (Pc_name r)\<rparr>) (df_clean raw)"

subsection \<open>Margin buckets: \<^verbatim>\<open>pd.cut\<close>\<close>

definition bins :: "rat list" where
  "bins = [0, 1, 5, 10, 15, 20, 30, 40, 50, 100]"

definition labels :: "str list" where
  "labels = map py_str
     [''0-1'', ''1-5'', ''5-10'', ''10-15'', ''15-20'', ''20-30'', ''30-40'', ''40-50'',
      ''50-100'']"

text \<open>
  \<^verbatim>\<open>bins.searchsorted(x, side="left")\<close>: the number of edges strictly below \<open>x\<close>; a \<open>NaN\<close>
  sorts after every edge.
\<close>

fun searchsorted :: "rat list \<Rightarrow> f64 \<Rightarrow> nat" where
  "searchsorted bs NaN = length bs"
| "searchsorted bs PInf = length bs"
| "searchsorted bs NInf = 0"
| "searchsorted bs (Fin q) = length (filter (\<lambda>b. b < q) bs)"

text \<open>
  \<^verbatim>\<open>pd.cut(x, bins, labels, include_lowest=True, right=True)\<close>: with \<open>include_lowest\<close> a value
  equal to the first edge is put into the first bin; a value in no bin is missing.
\<close>

definition cut :: "rat list \<Rightarrow> str list \<Rightarrow> f64 \<Rightarrow> str option" where
  "cut bs ls x =
     (let ids = (if num_eq x (Fin (hd bs)) then 1 else searchsorted bs x)
      in if isna x \<or> ids = length bs \<or> ids = 0 then None else Some (ls ! (ids - 1)))"

definition gray :: str where
  "gray = py_str ''gray''"

definition margin_color :: "f64 \<Rightarrow> str" where
  "margin_color m = (case cut bins labels m of None \<Rightarrow> gray | Some l \<Rightarrow> l)"

text \<open>
  The bucket as the specification words it: nine right-closed bins over \<open>[0, 100]\<close>, \<open>0\<close>
  in the lowest one, and gray for a missing or out-of-range margin.
\<close>

definition in_range :: "f64 \<Rightarrow> bool" where
  "in_range m = (case m of Fin q \<Rightarrow> 0 \<le> q \<and> q \<le> 100 | _ \<Rightarrow> False)"

definition margin_bucket_spec :: "f64 \<Rightarrow> str" where
  "margin_bucket_spec m =
     (case m of
        Fin q \<Rightarrow>
          (if q < 0 then py_str ''gray''
           else if q \<le> 1 then py_str ''0-1''
           else if q \<le> 5 then py_str ''1-5''
           else if q \<le> 10 then py_str ''5-10''
           else if q \<le> 15 then py_str ''10-15''
           else if q \<le> 20 then py_str ''15-20''
           else if q \<le> 30 then py_str ''20-30''
           else if q \<le> 40 then py_str ''30-40''
           else if q \<le> 50 then py_str ''40-50''
           else if q \<le> 100 then py_str ''50-100''
           else py_str ''gray'')
      | _ \<Rightarrow> py_str ''gray'')"

subsection \<open>Dataframe operations\<close>

text \<open>
  Sorting by several columns is a stable sort on the tuple of the column keys. The keys
  below put a column into the order pandas sorts it in: a missing value last, whatever
  the direction.
\<close>

fun asc_key :: "f64 \<Rightarrow> nat \<times> rat" where
  "asc_key NInf = (0, 0)"
| "asc_key (Fin q) = (1, q)"
| "asc_key PInf = (2, 0)"
| "asc_key NaN = (3, 0)"



text \<open>
  \<^verbatim>\<open>groupby(keys).size().reset_index(name=...)\<close>: one row per key that occurs, in key
  order, with the number of rows of that key. A row with a missing key cell belongs to no
  group (\<open>key r = None\<close>). \<open>enc\<close> is the sort key of a group key.
\<close>

definition groupby_size :: "('r \<Rightarrow> 'k option) \<Rightarrow> ('k \<Rightarrow> 'o::linorder) \<Rightarrow> 'r list \<Rightarrow> ('k \<times> nat) list" where
  "groupby_size key enc rows =
     (let ks = List.map_filter key rows
      in map (\<lambda>k. (k, count_list ks k)) (sort_key enc (remdups ks)))"

text \<open>\<^verbatim>\<open>drop_duplicates(subset)\<close> keeps, of the rows equal on the subset, the first.\<close>

fun drop_duplicates_on :: "('r \<Rightarrow> 'k) \<Rightarrow> 'k list \<Rightarrow> 'r list \<Rightarrow> 'r list" where
  "drop_duplicates_on f seen [] = []"
| "drop_duplicates_on f seen (r # rs) =
     (if f r \<in> set seen then drop_duplicates_on f seen rs
      else r # drop_duplicates_on f (f r # seen) rs)"

text \<open>
  \<^verbatim>\<open>groupby(keys).head(n)\<close> keeps the rows, in table order, that have fewer than \<open>n\<close> rows
  of their own group before them; a row of no group is not kept.
\<close>

fun groupby_head :: "nat \<Rightarrow> ('r \<Rightarrow> 'k option) \<Rightarrow> 'k list \<Rightarrow> 'r list \<Rightarrow> 'r list" where
  "groupby_head n key seen [] = []"
| "groupby_head n key seen (r # rs) =
     (case key r of
        None \<Rightarrow> groupby_head n key seen rs
      | Some k \<Rightarrow>
          (if count_list seen k < n then r # groupby_head n key (k # seen) rs
           else groupby_head n key (k # seen) rs))"

subsection \<open>Regional dominance\<close>

definition df_dom :: "row list \<Rightarrow> row list" where
  "df_dom raw =
     filter (\<lambda>r. state r \<noteq> None \<and> party r \<noteq> None \<and> \<not> isna (year r)) (df_clean raw)"

definition syp_key :: "row \<Rightarrow> (str \<times> f64 \<times> str) option" where
  "syp_key r =
     (case (state r, party r) of
        (Some s, Some p) \<Rightarrow> if isna (year r) then None else Some (s, year r, p)
      | _ \<Rightarrow> None)"

text \<open>A row of the seat table: state, year, party and the number of seats.\<close>

type_synonym seat_row = "(str \<times> f64 \<times> str) \<times> nat"

definition seats :: "seat_row \<Rightarrow> nat" where
  "seats d = snd d"

definition d_state :: "seat_row \<Rightarrow> str" where
  "d_state d = fst (fst d)"

definition d_year :: "seat_row \<Rightarrow> f64" where
  "d_year d = fst (snd (fst d))"

definition d_party :: "seat_row \<Rightarrow> str" where
  "d_party d = snd (snd (fst d))"

definition seat_counts :: "row list \<Rightarrow> seat_row list" where
  "seat_counts raw = groupby_size syp_key (\<lambda>(s, y, p). (s, asc_key y, p)) (df_dom raw)"

definition dominant :: "row list \<Rightarrow> seat_row list" where
  "dominant raw =
     drop_duplicates_on (\<lambda>d. (d_state d, d_year d)) []
       (sort_key (\<lambda>d. (d_state d, asc_key (d_year d), - int (seats d))) (seat_counts raw))"

definition state_party_dominance :: "row list \<Rightarrow> ((str \<times> str) \<times> nat) list" where
  "state_party_dominance raw =
     groupby_size (\<lambda>d. Some (d_state d, d_party d)) (\<lambda>k. k) (dominant raw)"

text \<open>The number of rows of a table won by a party in a state and year.\<close>

definition wins :: "row list \<Rightarrow> str \<Rightarrow> f64 \<Rightarrow> str \<Rightarrow> nat" where
  "wins rows s y p =
     length (filter (\<lambda>r. state r = Some s \<and> year r = y \<and> party r = Some p) rows)"

subsection \<open>Top turnout per state and year\<close>



subsection \<open>The winning-party map\<close>












subsection \<open>The margin map\<close>







subsection \<open>Repeat winners\<close>

definition pc_key :: "row \<Rightarrow> (str \<times> str) option" where
  "pc_key r =
     (case (candidate_name r, party r) of
        (Some c, Some p) \<Rightarrow> Some (c, p)
      | _ \<Rightarrow> None)"

definition candidate_wins :: "row list \<Rightarrow> ((str \<times> str) \<times> nat) list" where
  "candidate_wins raw = groupby_size pc_key (\<lambda>k. k) (df_hist raw)"

definition top_candidates :: "row list \<Rightarrow> ((str \<times> str) \<times> nat) list" where
  "top_candidates raw = filter (\<lambda>cw. 5 < snd cw) (candidate_wins raw)"

definition sunburst_data :: "row list \<Rightarrow> (str \<times> str \<times> nat) list" where
  "sunburst_data raw = map (\<lambda>((c, p), n). (p, c, n)) (top_candidates raw)"

subsection \<open>The render callbacks and the frames in memory\<close>




























subsection \<open>Notions used in the statements\<close>




text \<open>How often a party and candidate name occur together in a table.\<close>

definition occurrences :: "row list \<Rightarrow> str \<Rightarrow> str \<Rightarrow> nat" where
  "occurrences rows p c =
     length (filter (\<lambda>r. party r = Some p \<and> candidate_name r = Some c) rows)"

subsection \<open>Example tables\<close>

text \<open>Concrete rows on which the theorems below are evaluated.\<close>

definition goa_row :: row where
  "goa_row =
     \<lparr>state = Some (py_str ''Goa''), year = Fin 2019,
      party = Some (py_str ''Bharatiya Janata Party''),
      Pc_name = Some (py_str '' north goa''), candidate_name = Some (py_str ''A''),
      Turnout = Fin 70, votes = Fin 700, electors = Fin 1000, margin_pct = Fin 5\<rparr>"

definition zero_electors_row :: row where
  "zero_electors_row = goa_row\<lparr>votes := Fin 5, electors := Fin 0\<rparr>"

definition goa_inc_row :: row where
  "goa_inc_row =
     goa_row\<lparr>party := Some (py_str '' indian national congress''),
       candidate_name := Some (py_str ''B'')\<rparr>"

definition goa_table :: "row list" where
  "goa_table = [goa_inc_row, goa_row, goa_row\<lparr>Pc_name := Some (py_str ''South Goa'')\<rparr>]"

definition tie_table :: "row list" where
  "tie_table = [goa_inc_row, goa_row]"




definition repeat_table :: "row list" where
  "repeat_table =
     [goa_row, goa_row, goa_row, goa_row, goa_row, goa_row,
      goa_inc_row, goa_inc_row, goa_inc_row, goa_inc_row, goa_inc_row]"

section \<open>Properties\<close>

subsection \<open>Cleaning and the recomputed turnout\<close>

lemma recompute_cols [simp]:
  "votes (recompute_turnout r) = votes r" "electors (recompute_turnout r) = electors r"
  "state (recompute_turnout r) = state r" "year (recompute_turnout r) = year r"
  "party (recompute_turnout r) = party r" "Pc_name (recompute_turnout r) = Pc_name r"
  "candidate_name (recompute_turnout r) = candidate_name r"
  "margin_pct (recompute_turnout r) = margin_pct r"
  "Turnout (recompute_turnout r) = num_mul (num_div (votes r) (electors r)) (Fin 100)"
  by (simp_all add: recompute_turnout_def)

lemma df_clean_row:
  assumes "r \<in> set (df_clean raw)"
  shows "Turnout r = num_mul (num_div (votes r) (electors r)) (Fin 100)"
    and "\<not> isna (votes r)" and "\<not> isna (electors r)" and "party r \<noteq> None"
  using assms by (auto simp: df_clean_def survives_def clean_party_def)

lemma df_hist_cols:
  "map Turnout (df_hist raw) = map Turnout (df_clean raw)"
  "map votes (df_hist raw) = map votes (df_clean raw)"
  "map electors (df_hist raw) = map electors (df_clean raw)"
  "map state (df_hist raw) = map state (df_clean raw)"
  "map year (df_hist raw) = map year (df_clean raw)"
  "map party (df_hist raw) = map party (df_clean raw)"
  "map candidate_name (df_hist raw) = map candidate_name (df_clean raw)"
  by (simp_all add: df_hist_def)

lemma df_hist_row:
  assumes "r \<in> set (df_hist raw)"
  shows "Turnout r = num_mul (num_div (votes r) (electors r)) (Fin 100)"
    and "\<not> isna (votes r)" and "\<not> isna (electors r)" and "party r \<noteq> None"
  using assms df_clean_row[of _ raw] by (auto simp: df_hist_def)

lemma df_clean_raw_turnout:
  assumes "\<forall>r \<in> set raw. isna (f r) = isna (Turnout r)"
  shows "df_clean (map (\<lambda>r. r\<lparr>Turnout := f r\<rparr>) raw) = df_clean raw"
  using assms
  by (induction raw) (auto simp: df_clean_def survives_def recompute_turnout_def)

text \<open>
  Claim C2, as the code has it. In every row of the cleaned table Turnout is
  votes / electors * 100, and the value of the raw Turnout field has no influence on the
  cleaned table as long as it is missing in the same rows. A row survives the cleaning
  exactly when its raw Turnout, its votes and its electors are all present: whether the
  raw field parses does decide which rows survive.
\<close>

theorem turnout_recomputed:
  "(\<forall>r \<in> set (df_hist raw). Turnout r = num_mul (num_div (votes r) (electors r)) (Fin 100))
   \<and> ((\<forall>r \<in> set raw. isna (f r) = isna (Turnout r))
        \<longrightarrow> df_hist (map (\<lambda>r. r\<lparr>Turnout := f r\<rparr>) raw) = df_hist raw)
   \<and> length (df_hist raw) = length (filter survives raw)"
proof -
  have "length (df_hist raw) = length (filter survives raw)"
    by (induction raw) (auto simp: df_hist_def df_clean_def survives_def)
  then show ?thesis
    using df_hist_row(1)[of _ raw] df_clean_raw_turnout[of raw f]
    by (auto simp: df_hist_def)
qed

text \<open>
  One row with raw Turnout 70, votes 700 and electors 1000: the recomputed Turnout is 70,
  and stays so when the raw field is replaced by 1.
\<close>

theorem turnout_recomputed_witness:
  "map Turnout (df_hist [goa_row]) = [Fin 70]
   \<and> df_hist (map (\<lambda>r. r\<lparr>Turnout := Fin 1\<rparr>) [goa_row]) = df_hist [goa_row]
   \<and> length (df_hist [goa_row]) = 1"
  using turnout_recomputed[of "[goa_row]" "\<lambda>r. Fin 1"]
  by (simp add: df_hist_def df_clean_def survives_def isna_def goa_row_def recompute_turnout_def)

text \<open>
  Claim C2 as stated fails: the same row survives with a raw Turnout of 70 and is dropped
  when the raw Turnout is missing, so the raw field influences which rows survive.
\<close>

theorem raw_turnout_gates_survival:
  "length (df_hist [goa_row]) = 1 \<and> length (df_hist [goa_row\<lparr>Turnout := NaN\<rparr>]) = 0"
  by (simp add: df_hist_def df_clean_def survives_def isna_def goa_row_def)

text \<open>
  Claim C9, as the code has it. A row of the cleaned table has votes and electors
  present, nothing more: electors may be 0. The division raises nothing; for finite
  votes and electors the Turnout is votes / electors * 100 when electors is not 0, and
  an infinity or NaN when it is.
\<close>

theorem division_unguarded:
  "\<forall>r \<in> set (df_hist raw). \<not> isna (votes r) \<and> \<not> isna (electors r)
     \<and> (\<forall>v e. votes r = Fin v \<and> electors r = Fin e \<longrightarrow>
          Turnout r = (if e = 0 then (if v = 0 then NaN else if 0 < v then PInf else NInf)
                       else Fin (v / e * 100)))"
  using df_hist_row[of _ raw] by auto

text \<open>
  The row with votes 700 and electors 1000 survives with Turnout 70.
\<close>

theorem division_unguarded_witness:
  "map votes (df_hist [goa_row]) = [Fin 700] \<and> map electors (df_hist [goa_row]) = [Fin 1000]
   \<and> map Turnout (df_hist [goa_row]) = [Fin 70]"
  using division_unguarded[of "[goa_row]"]
  by (simp add: df_hist_def df_clean_def survives_def isna_def goa_row_def recompute_turnout_def)

text \<open>
  Claim C9 as stated fails: a row with electors 0 and votes 5 survives the cleaning,
  and its Turnout is infinite.
\<close>

theorem zero_electors_survive:
  "map electors (df_hist [zero_electors_row]) = [Fin 0]
   \<and> map Turnout (df_hist [zero_electors_row]) = [PInf]"
  by (simp add: df_hist_def df_clean_def survives_def isna_def goa_row_def zero_electors_row_def
      recompute_turnout_def)

subsection \<open>Join-key normalisation\<close>















subsection \<open>Margin buckets\<close>

lemma margin_color_Fin:
  "margin_color (Fin q) = margin_bucket_spec (Fin q)"
proof -
  consider "q < 0" | "q = 0" | "0 < q" "q \<le> 1" | "1 < q" "q \<le> 5" | "5 < q" "q \<le> 10"
    | "10 < q" "q \<le> 15" | "15 < q" "q \<le> 20" | "20 < q" "q \<le> 30" | "30 < q" "q \<le> 40"
    | "40 < q" "q \<le> 50" | "50 < q" "q \<le> 100" | "100 < q"
    by linarith
  then show ?thesis
    by cases
      (simp_all add: margin_color_def margin_bucket_spec_def cut_def bins_def isna_def
        gray_def labels_def)
qed

lemma margin_color_refines: "margin_color m = margin_bucket_spec m"
  by (cases m) (simp_all add: margin_color_Fin,
      simp_all add: margin_color_def margin_bucket_spec_def cut_def bins_def isna_def gray_def)

lemma gray_not_label: "gray \<notin> set labels"
  by (simp add: gray_def labels_def py_str_def)

lemma distinct_labels: "distinct labels"
  by (simp add: labels_def py_str_def)

lemma bucket_in_range:
  "in_range m \<Longrightarrow> margin_bucket_spec m \<in> set labels"
  by (cases m) (auto simp: in_range_def margin_bucket_spec_def labels_def)

lemma bucket_out_range:
  "\<not> in_range m \<Longrightarrow> margin_bucket_spec m = gray"
  by (cases m) (auto simp: in_range_def margin_bucket_spec_def gray_def)

text \<open>
  Claim C3. The margin bucket of a row is a function of its margin%. It is the label of
  the one right-closed bin the margin falls into, with 0 in the lowest bin, when the
  margin lies in [0, 100]; the nine labels are distinct and none of them is gray; and
  the bucket is gray exactly when the margin is missing or outside [0, 100].
\<close>

theorem margin_color_buckets:
  "margin_color m = margin_bucket_spec m
   \<and> (in_range m \<longrightarrow> margin_color m \<in> set labels)
   \<and> (margin_color m = gray \<longleftrightarrow> isna m \<or> \<not> in_range m)
   \<and> gray \<notin> set labels \<and> distinct labels \<and> length labels = 9"
proof -
  have a: "margin_color m = margin_bucket_spec m" by (rule margin_color_refines)
  have b: "in_range m \<longrightarrow> margin_color m \<in> set labels"
    using bucket_in_range a by simp
  have "isna m \<Longrightarrow> \<not> in_range m" by (simp add: isna_def in_range_def)
  then have c: "margin_color m = gray \<longleftrightarrow> isna m \<or> \<not> in_range m"
    using bucket_in_range[of m] bucket_out_range[of m] gray_not_label a by auto
  show ?thesis using a b c gray_not_label distinct_labels by (simp add: labels_def)
qed

text \<open>
  The buckets of the margins 5, 0, 101, of a missing margin and of -1/2.
\<close>

theorem margin_color_buckets_witness:
  "in_range (Fin 5) \<and> margin_color (Fin 5) = py_str ''1-5'' \<and> margin_color (Fin 5) \<in> set labels
   \<and> margin_color (Fin 0) = py_str ''0-1''
   \<and> \<not> in_range (Fin 101) \<and> margin_color (Fin 101) = gray
   \<and> margin_color NaN = gray \<and> margin_color (Fin (-1/2)) = gray"
  using margin_color_buckets[of "Fin 5"] margin_color_buckets[of "Fin 101"]
    margin_color_buckets[of "Fin 0"] margin_color_buckets[of NaN] margin_color_buckets[of "Fin (-1/2)"]
  by (simp add: in_range_def margin_bucket_spec_def gray_def isna_def labels_def)

subsection \<open>Dataframe operations\<close>

lemma count_map_filter:
  "count_list (List.map_filter key rows) k = length (filter (\<lambda>r. key r = Some k) rows)"
  by (induction rows) (auto simp: split: option.splits)

lemma set_map_filter_key:
  "k \<in> set (List.map_filter key rows) \<longleftrightarrow> (\<exists>r \<in> set rows. key r = Some k)"
  by (induction rows) (auto simp: split: option.splits)

lemma set_groupby_size:
  "set (groupby_size key enc rows) =
     {(k, length (filter (\<lambda>r. key r = Some k) rows)) | k. \<exists>r \<in> set rows. key r = Some k}"
proof -
  let ?ks = "List.map_filter key rows"
  have "set (groupby_size key enc rows) = (\<lambda>k. (k, count_list ?ks k)) ` set ?ks"
    by (simp add: groupby_size_def Let_def)
  also have "\<dots> = {(k, length (filter (\<lambda>r. key r = Some k) rows)) | k.
                      \<exists>r \<in> set rows. key r = Some k}"
    unfolding count_map_filter using set_map_filter_key[of _ key rows] by blast
  finally show ?thesis .
qed

lemma distinct_groupby_size:
  "distinct (map fst (groupby_size key enc rows))"
  by (simp add: groupby_size_def Let_def comp_def)

lemma sum_groupby_size:
  "sum_list (map snd (groupby_size key enc rows)) = length (List.map_filter key rows)"
proof -
  let ?ks = "List.map_filter key rows"
  have "sum_list (map snd (groupby_size key enc rows))
          = sum_list (map (count_list ?ks) (sort_key enc (remdups ?ks)))"
    by (simp add: groupby_size_def Let_def comp_def)
  also have "\<dots> = sum_mset (image_mset (count_list ?ks) (mset (sort_key enc (remdups ?ks))))"
    by (metis mset_map sum_mset_sum_list)
  also have "\<dots> = sum_mset (image_mset (count_list ?ks) (mset (remdups ?ks)))"
    by simp
  also have "\<dots> = sum_list (map (count_list ?ks) (remdups ?ks))"
    by (metis mset_map sum_mset_sum_list)
  also have "\<dots> = sum (count_list ?ks) (set ?ks)"
    by (simp add: sum_list_distinct_conv_sum_set)
  also have "\<dots> = length ?ks"
    by (rule sum_count_set) simp_all
  finally show ?thesis .
qed

lemma filter_drop_duplicates_on:
  "filter (\<lambda>x. f x = k) (drop_duplicates_on f seen xs) =
     (if k \<in> set seen then [] else take 1 (filter (\<lambda>x. f x = k) xs))"
proof (induction xs arbitrary: seen)
  case Nil
  then show ?case by simp
next
  case (Cons x xs)
  show ?case
  proof (cases "f x \<in> set seen")
    case True
    then show ?thesis using Cons.IH[of seen] by auto
  next
    case False
    then show ?thesis using Cons.IH[of "f x # seen"] by auto
  qed
qed

lemma set_drop_duplicates_on: "set (drop_duplicates_on f seen xs) \<subseteq> set xs"
  by (induction xs arbitrary: seen) auto

lemma drop_duplicates_on_first:
  assumes "d \<in> set (drop_duplicates_on f [] xs)"
  shows "\<exists>rest. filter (\<lambda>x. f x = f d) xs = d # rest"
proof -
  have "d \<in> set (filter (\<lambda>x. f x = f d) (drop_duplicates_on f [] xs))"
    using assms by simp
  then have "d \<in> set (take 1 (filter (\<lambda>x. f x = f d) xs))"
    by (simp add: filter_drop_duplicates_on)
  then show ?thesis by (cases "filter (\<lambda>x. f x = f d) xs") simp_all
qed

lemma drop_duplicates_on_count:
  "length (filter (\<lambda>x. f x = k) (drop_duplicates_on f [] xs)) =
     (if k \<in> f ` set xs then 1 else 0)"
proof -
  have "(filter (\<lambda>x. f x = k) xs = []) = (k \<notin> f ` set xs)"
    by (auto simp: filter_empty_conv)
  then show ?thesis
    by (cases "filter (\<lambda>x. f x = k) xs") (auto simp: filter_drop_duplicates_on)
qed

lemma sort_key_first_least:
  assumes "filter P (sort_key K xs) = d # rest" and "e \<in> set xs" and "P e"
  shows "K d \<le> K e"
proof -
  have "sorted (map K (filter P (sort_key K xs)))"
    by (simp add: sorted_filter)
  then have "\<forall>x \<in> set rest. K d \<le> K x" using assms(1) by simp
  moreover have "e \<in> set (filter P (sort_key K xs))" using assms(2,3) by simp
  then have "e \<in> set (d # rest)" using assms(1) by simp
  ultimately show ?thesis by auto
qed


lemma image_drop_duplicates_on:
  "f ` set (drop_duplicates_on f seen xs) = f ` set xs - set seen"
  by (induction xs arbitrary: seen) auto

lemma distinct_drop_duplicates_on:
  "distinct (map f (drop_duplicates_on f seen xs))"
  by (induction xs arbitrary: seen) (auto simp: image_drop_duplicates_on)


lemma groupby_head_keyed:
  "r \<in> set (groupby_head n key seen xs) \<Longrightarrow> key r \<noteq> None \<and> r \<in> set xs"
  by (induction xs arbitrary: seen) (auto split: option.splits if_splits)


subsection \<open>Evaluation on concrete tables\<close>

lemmas row_eval =
  df_hist_def df_clean_def survives_def isna_def recompute_turnout_def clean_party_def
  astype_str_def normalize_cell_def normalize_name_def strip_def title_def is_space_def
  is_cased_def to_lower_full_def to_title_full_def is_upper_ascii_def is_lower_ascii_def
  py_str_def replace_party_def party_map_def

lemmas dominance_eval =
  dominant_def seat_counts_def groupby_size_def df_dom_def row_eval syp_key_def
  d_state_def d_year_def d_party_def seats_def

subsection \<open>Regional dominance\<close>

lemma syp_key_Some:
  "syp_key r = Some (s, y, p) \<longleftrightarrow>
     state r = Some s \<and> year r = y \<and> party r = Some p \<and> \<not> isna y"
  by (auto simp: syp_key_def split: option.splits)

lemma length_syp_group:
  "length (filter (\<lambda>r. syp_key r = Some (s, y, p)) (df_dom raw)) =
     (if isna y then 0 else wins (df_clean raw) s y p)"
proof -
  have "filter (\<lambda>r. syp_key r = Some (s, y, p)) (df_dom raw) =
          filter (\<lambda>r. state r = Some s \<and> year r = y \<and> party r = Some p \<and> \<not> isna y)
            (df_clean raw)"
    unfolding df_dom_def filter_filter
    by (rule filter_cong) (auto simp: syp_key_Some)
  then show ?thesis by (simp add: wins_def)
qed

lemma wins_pos:
  "0 < wins rows s y p \<longleftrightarrow> (\<exists>r \<in> set rows. state r = Some s \<and> year r = y \<and> party r = Some p)"
  by (auto simp: wins_def filter_empty_conv)

lemma in_seat_counts:
  "d \<in> set (seat_counts raw) \<longleftrightarrow>
     \<not> isna (d_year d) \<and> 0 < seats d
     \<and> seats d = wins (df_clean raw) (d_state d) (d_year d) (d_party d)"
proof -
  obtain s y p n where d: "d = ((s, y, p), n)" by (metis prod.exhaust)
  have ex: "(\<exists>r \<in> set (df_dom raw). syp_key r = Some (s, y, p)) \<longleftrightarrow>
              \<not> isna y \<and> 0 < wins (df_clean raw) s y p"
    by (auto simp: wins_pos syp_key_Some df_dom_def)
  show ?thesis
    unfolding seat_counts_def set_groupby_size d
    using ex by (auto simp: length_syp_group seats_def d_state_def d_year_def d_party_def)
qed

lemma dominant_row:
  assumes d: "d \<in> set (dominant raw)"
  shows "\<not> isna (d_year d)"
    and "seats d = wins (df_clean raw) (d_state d) (d_year d) (d_party d)"
    and "wins (df_clean raw) (d_state d) (d_year d) p \<le> seats d"
proof -
  let ?K = "\<lambda>d. (d_state d, asc_key (d_year d), - int (seats d))"
  let ?f = "\<lambda>d. (d_state d, d_year d)"
  let ?S = "sort_key ?K (seat_counts raw)"
  from d have dS: "d \<in> set (seat_counts raw)"
    using set_drop_duplicates_on[of ?f "[]" ?S] by (auto simp: dominant_def)
  then show y: "\<not> isna (d_year d)"
    and "seats d = wins (df_clean raw) (d_state d) (d_year d) (d_party d)"
    by (simp_all add: in_seat_counts)
  show "wins (df_clean raw) (d_state d) (d_year d) p \<le> seats d"
  proof (cases "wins (df_clean raw) (d_state d) (d_year d) p = 0")
    case True
    then show ?thesis by simp
  next
    case False
    define e :: seat_row where
      "e = ((d_state d, d_year d, p), wins (df_clean raw) (d_state d) (d_year d) p)"
    have e: "d_state e = d_state d" "d_year e = d_year d" "d_party e = p"
      "seats e = wins (df_clean raw) (d_state d) (d_year d) p"
      by (simp_all add: e_def d_state_def d_year_def d_party_def seats_def)
    have eS: "e \<in> set (seat_counts raw)"
      using False y by (simp add: in_seat_counts e)
    from d obtain rest where "filter (\<lambda>x. ?f x = ?f d) ?S = d # rest"
      using drop_duplicates_on_first[of d ?f ?S] by (auto simp: dominant_def)
    from sort_key_first_least[OF this eS] have "?K d \<le> ?K e" by (simp add: e)
    then show ?thesis by (simp add: e)
  qed
qed

lemma dominant_pairs:
  "(\<lambda>d. (d_state d, d_year d)) ` set (dominant raw) =
     {(s, y). \<exists>r \<in> set (df_clean raw). state r = Some s \<and> year r = y \<and> \<not> isna y}"
proof -
  have "(\<lambda>d. (d_state d, d_year d)) ` set (dominant raw) =
          (\<lambda>d. (d_state d, d_year d)) ` set (seat_counts raw)"
    by (simp add: dominant_def image_drop_duplicates_on)
  also have "\<dots> = {(s, y). \<exists>r \<in> set (df_clean raw). state r = Some s \<and> year r = y \<and> \<not> isna y}"
  proof (intro set_eqI iffI)
    fix k assume "k \<in> (\<lambda>d. (d_state d, d_year d)) ` set (seat_counts raw)"
    then obtain d where "d \<in> set (seat_counts raw)" "k = (d_state d, d_year d)" by blast
    then show "k \<in> {(s, y). \<exists>r \<in> set (df_clean raw). state r = Some s \<and> year r = y \<and> \<not> isna y}"
      by (auto simp: in_seat_counts wins_pos)
  next
    fix k assume "k \<in> {(s, y). \<exists>r \<in> set (df_clean raw). state r = Some s \<and> year r = y \<and> \<not> isna y}"
    then obtain s y r where k: "k = (s, y)" and r: "r \<in> set (df_clean raw)"
      "state r = Some s" "year r = y" "\<not> isna y" by blast
    from df_clean_row(4)[OF r(1)] obtain p where p: "party r = Some p" by blast
    define e :: seat_row where "e = ((s, y, p), wins (df_clean raw) s y p)"
    have "0 < wins (df_clean raw) s y p" using r p by (auto simp: wins_pos)
    then have "e \<in> set (seat_counts raw)"
      using r(4) by (simp add: in_seat_counts e_def d_state_def d_year_def d_party_def seats_def)
    moreover have "(d_state e, d_year e) = k" by (simp add: e_def k d_state_def d_year_def)
    ultimately show "k \<in> (\<lambda>d. (d_state d, d_year d)) ` set (seat_counts raw)" by force
  qed
  finally show ?thesis .
qed

text \<open>
  Claim C1. Every state and year that occurs in the cleaned results table has a row in
  the dominance table; and the party of every row of the dominance table has, in that
  state and year, as many wins as the row says and at least as many as any party.
\<close>

theorem dominant_has_most_wins:
  "(\<forall>r \<in> set (df_clean raw). \<forall>s. state r = Some s \<and> \<not> isna (year r) \<longrightarrow>
      (\<exists>d \<in> set (dominant raw). d_state d = s \<and> d_year d = year r))
   \<and> (\<forall>d \<in> set (dominant raw).
        seats d = wins (df_clean raw) (d_state d) (d_year d) (d_party d)
        \<and> (\<forall>p. wins (df_clean raw) (d_state d) (d_year d) p \<le> seats d))"
proof -
  have "\<exists>d \<in> set (dominant raw). d_state d = s \<and> d_year d = year r"
    if "r \<in> set (df_clean raw)" "state r = Some s" "\<not> isna (year r)" for r s
  proof -
    have "(s, year r) \<in> (\<lambda>d. (d_state d, d_year d)) ` set (dominant raw)"
      unfolding dominant_pairs using that by blast
    then show ?thesis by auto
  qed
  then show ?thesis using dominant_row(2,3)[of _ raw] by blast
qed

text \<open>
  Claim C10. State and year are a key of the dominance table: it has exactly one row for
  a state and year that occur (with state, party and year present) in the cleaned
  results table, and none otherwise; so the dominance counts per state and party add up
  to the number of state-year pairs, each counted once.
\<close>

theorem dominant_key:
  "length (filter (\<lambda>d. d_state d = s \<and> d_year d = y) (dominant raw)) =
     (if \<exists>r \<in> set (df_clean raw). state r = Some s \<and> party r \<noteq> None \<and> year r = y \<and> \<not> isna y
      then 1 else 0)
   \<and> sum_list (map snd (state_party_dominance raw)) =
       card {(s, y). \<exists>r \<in> set (df_clean raw).
                state r = Some s \<and> party r \<noteq> None \<and> year r = y \<and> \<not> isna y}"
proof -
  let ?f = "\<lambda>d. (d_state d, d_year d)"
  let ?pairs = "{(s, y). \<exists>r \<in> set (df_clean raw). state r = Some s \<and> year r = y \<and> \<not> isna y}"
  have pairs: "{(s, y). \<exists>r \<in> set (df_clean raw).
                  state r = Some s \<and> party r \<noteq> None \<and> year r = y \<and> \<not> isna y} = ?pairs"
    using df_clean_row(4)[of _ raw] by auto
  let ?S = "sort_key (\<lambda>d. (d_state d, asc_key (d_year d), - int (seats d))) (seat_counts raw)"
  have "length (filter (\<lambda>d. ?f d = (s, y)) (drop_duplicates_on ?f [] ?S)) =
          (if (s, y) \<in> ?f ` set ?S then 1 else 0)"
    by (rule drop_duplicates_on_count)
  then have "length (filter (\<lambda>d. d_state d = s \<and> d_year d = y) (dominant raw)) =
          (if (s, y) \<in> ?f ` set (dominant raw) then 1 else 0)"
    by (simp add: dominant_def image_drop_duplicates_on)
  also have "\<dots> = (if (s, y) \<in> ?pairs then 1 else 0)"
    by (simp only: dominant_pairs)
  finally have one: "length (filter (\<lambda>d. d_state d = s \<and> d_year d = y) (dominant raw)) =
     (if \<exists>r \<in> set (df_clean raw). state r = Some s \<and> party r \<noteq> None \<and> year r = y \<and> \<not> isna y
      then 1 else 0)"
    using df_clean_row(4)[of _ raw] by auto
  have "length (List.map_filter (\<lambda>d. Some (g d)) xs) = length xs" for g :: "seat_row \<Rightarrow> str \<times> str" and xs
    by (induction xs) (simp_all add:)
  then have "sum_list (map snd (state_party_dominance raw)) = length (dominant raw)"
    unfolding state_party_dominance_def sum_groupby_size by simp
  also have "\<dots> = length (map ?f (dominant raw))" by simp
  also have "\<dots> = card (set (map ?f (dominant raw)))"
    unfolding dominant_def by (rule distinct_card[symmetric], rule distinct_drop_duplicates_on)
  also have "\<dots> = card ?pairs" by (simp only: set_map dominant_pairs)
  finally show ?thesis using one pairs by simp
qed

text \<open>
  Three Goa rows of 2019, two won by the BJP and one by the INC: the dominance table has
  the one row Goa, 2019, BJP with 2 seats.
\<close>

theorem dominant_has_most_wins_witness:
  "dominant goa_table = [((py_str ''Goa'', Fin 2019, py_str ''BJP''), 2)]
   \<and> wins (df_clean goa_table) (py_str ''Goa'') (Fin 2019) (py_str ''BJP'') = 2
   \<and> wins (df_clean goa_table) (py_str ''Goa'') (Fin 2019) (py_str ''INC'') = 1"
  using dominant_has_most_wins[of goa_table]
  by (simp add: dominance_eval wins_def goa_table_def goa_row_def goa_inc_row_def)

text \<open>
  A tie, one seat each for the INC and the BJP: the dominance table still has one row
  for Goa in 2019, and the state is counted once.
\<close>

theorem dominant_key_witness:
  "length (filter (\<lambda>d. d_state d = py_str ''Goa'' \<and> d_year d = Fin 2019) (dominant tie_table)) = 1
   \<and> dominant tie_table = [((py_str ''Goa'', Fin 2019, py_str ''BJP''), 1)]
   \<and> state_party_dominance tie_table = [((py_str ''Goa'', py_str ''BJP''), 1)]"
proof -
  have d: "dominant tie_table = [((py_str ''Goa'', Fin 2019, py_str ''BJP''), 1)]"
    by (simp add: dominance_eval tie_table_def goa_row_def goa_inc_row_def)
  have "state_party_dominance tie_table = [((py_str ''Goa'', py_str ''BJP''), 1)]"
    unfolding state_party_dominance_def d
    by (simp add: groupby_size_def d_state_def d_party_def)
  moreover have "df_clean tie_table \<noteq> []"
    by (simp add: df_clean_def tie_table_def survives_def isna_def goa_row_def goa_inc_row_def)
  ultimately show ?thesis
    using dominant_key[of "py_str ''Goa''" "Fin 2019" tie_table, THEN conjunct1] d
    by (simp add: d_state_def d_year_def)
qed

subsection \<open>Top turnout per state and year\<close>







subsection \<open>The winning-party map\<close>









subsection \<open>Repeat winners\<close>

lemma pc_key_Some: "pc_key r = Some (c, p) \<longleftrightarrow> party r = Some p \<and> candidate_name r = Some c"
  by (auto simp: pc_key_def split: option.splits)

lemma in_candidate_wins:
  "((c, p), n) \<in> set (candidate_wins raw) \<longleftrightarrow> n = occurrences (df_hist raw) p c \<and> 0 < n"
  unfolding candidate_wins_def set_groupby_size occurrences_def
  by (auto simp: pc_key_Some filter_empty_conv)

text \<open>
  Claim C8. The sunburst table holds a party and candidate name with a count exactly
  when the two occur together that many times in the results table and more than five
  times; and it holds no pair twice.
\<close>

theorem sunburst_repeat_winners:
  "((p, c, n) \<in> set (sunburst_data raw) \<longleftrightarrow> n = occurrences (df_hist raw) p c \<and> 5 < n)
   \<and> distinct (map (\<lambda>(p, c, n). (p, c)) (sunburst_data raw))"
proof -
  have "(p, c, n) \<in> set (sunburst_data raw) \<longleftrightarrow> ((c, p), n) \<in> set (top_candidates raw)"
    by (force simp: sunburst_data_def)
  then have a: "(p, c, n) \<in> set (sunburst_data raw) \<longleftrightarrow> n = occurrences (df_hist raw) p c \<and> 5 < n"
    by (auto simp: top_candidates_def in_candidate_wins)
  have "distinct (map fst (top_candidates raw))"
    unfolding top_candidates_def candidate_wins_def
    by (rule distinct_map_filter) (rule distinct_groupby_size)
  moreover have "inj_on prod.swap (set (map fst (top_candidates raw)))"
    by (rule inj_onI) (metis swap_swap)
  ultimately have "distinct (map prod.swap (map fst (top_candidates raw)))"
    by (simp only: distinct_map)
  moreover have "map (\<lambda>(p, c, n). (p, c)) (sunburst_data raw) =
      map prod.swap (map fst (top_candidates raw))"
    by (simp add: sunburst_data_def split_def prod.swap_def)
  ultimately show ?thesis using a by simp
qed

text \<open>
  Six wins of candidate A for the BJP and five of candidate B for the INC: only the
  first is in the sunburst table.
\<close>

theorem sunburst_repeat_winners_witness:
  "sunburst_data repeat_table = [(py_str ''BJP'', py_str ''A'', 6)]
   \<and> occurrences (df_hist repeat_table) (py_str ''BJP'') (py_str ''A'') = 6
   \<and> occurrences (df_hist repeat_table) (py_str ''INC'') (py_str ''B'') = 5"
  using sunburst_repeat_winners[of "py_str ''BJP''" "py_str ''A''" 6 repeat_table]
  by (simp add: sunburst_data_def top_candidates_def candidate_wins_def groupby_size_def
      pc_key_def occurrences_def repeat_table_def goa_row_def
      goa_inc_row_def row_eval)

subsection \<open>The render callbacks leave the tables alone\<close>















end
